theory Spec2Isabelle
  imports Complex_Main
begin

section \<open>The dynamic difficulty scaler\<close>

text \<open>
  A shallow embedding of the class \<open>DynamicDifficultyScaler\<close> of
  \<^verbatim>\<open>DynamicDifficultyScaler.py\<close>. Every method is a function that takes the instance and
  returns the updated instance together with the method's result.

  Numbers: the attributes are Python floats. They are modelled as the real numbers they
  denote, so rounding error, infinities and NaN are outside this model; \<open>float(x)\<close> is the
  identity and the builtins \<open>max\<close> and \<open>min\<close> are \<open>max\<close> and \<open>min\<close> on the reals.
  The literal \<open>1e-9\<close> is \<open>1 / 10 ^ 9\<close>.
\<close>

subsection \<open>State\<close>

text \<open>
  The attributes assigned by \<open>__init__\<close>, in the names of the source. \<open>visible_elapsed\<close> is
  assigned by \<open>set_visible_time\<close> only: it is \<open>None\<close> while the attribute does not exist.
\<close>

record scaler =
  target_points :: real
  initial_milestone_value :: real
  visible_total_time :: real
  target_win_time :: real
  adjustment_rate :: real
  min_milestone_value :: real
  max_milestone_value :: real
  earned_points :: real
  milestone_value :: real
  visible_time_remaining :: real
  normal_time_reward :: real
  low_time_reward :: real
  high_time_threshold :: real
  low_time_threshold :: real
  high_time_cap :: real
  start_visible_total_time :: real
  awarded_time_ledger :: real
  visible_elapsed :: "real option"

text \<open>\<open>__init__\<close>, with its seven parameters in the order of the source.\<close>

definition init :: "real \<Rightarrow> real \<Rightarrow> real \<Rightarrow> real \<Rightarrow> real \<Rightarrow> real \<Rightarrow> real \<Rightarrow> scaler" where
  "init tp imv vtt twt ar mn mx =
     \<lparr> target_points = tp,
       initial_milestone_value = imv,
       visible_total_time = vtt,
       target_win_time = twt,
       adjustment_rate = ar,
       min_milestone_value = mn,
       max_milestone_value = mx,
       earned_points = 0,
       milestone_value = imv,
       visible_time_remaining = vtt,
       normal_time_reward = 1,
       low_time_reward = 20,
       high_time_threshold = 50,
       low_time_threshold = 30,
       high_time_cap = 5,
       start_visible_total_time = vtt,
       awarded_time_ledger = 0,
       visible_elapsed = None \<rparr>"

text \<open>The instance that \<open>DynamicDifficultyScaler()\<close> builds from the default arguments.\<close>

definition default_scaler :: scaler where
  "default_scaler = init 100 10 100 400 (1 / 4) 1 20"

text \<open>The exceptions the methods raise.\<close>

datatype error =
    ZeroDivisionError
  | OSError
  | JSONDecodeError
  | AttributeError
  | TypeError
  | ValueError
  | OverflowError

subsection \<open>Engine integration setters\<close>

definition set_progress :: "scaler \<Rightarrow> real \<Rightarrow> scaler" where
  "set_progress s points = s\<lparr>earned_points := points\<rparr>"

definition set_visible_time_remaining :: "scaler \<Rightarrow> real \<Rightarrow> scaler" where
  "set_visible_time_remaining s r = s\<lparr>visible_time_remaining := max 0 r\<rparr>"

definition set_visible_total_time :: "scaler \<Rightarrow> real \<Rightarrow> scaler" where
  "set_visible_total_time s v = s\<lparr>visible_total_time := max 0 v\<rparr>"

text \<open>\<open>_effective_total\<close>: the three-argument \<open>max\<close> of the source.\<close>

definition effective_total :: "scaler \<Rightarrow> real" where
  "effective_total s =
     (let vtr = visible_time_remaining s;
          vtt = visible_total_time s;
          baseline = start_visible_total_time s;
          ledger = awarded_time_ledger s
      in max (max (baseline + ledger) vtt) vtr)"

text \<open>
  \<open>set_visible_time\<close> subtracts the argument \<open>remaining\<close> as it was passed, not the stored,
  clamped reading.
\<close>

definition set_visible_time :: "scaler \<Rightarrow> real \<Rightarrow> real \<Rightarrow> scaler" where
  "set_visible_time s remaining total_time =
     (let s1 = set_visible_total_time s total_time;
          s2 = set_visible_time_remaining s1 remaining;
          eff_total = effective_total s2
      in s2\<lparr>visible_elapsed := Some (max 0 (eff_total - remaining))\<rparr>)"

definition add_visible_time :: "scaler \<Rightarrow> real \<Rightarrow> bool \<Rightarrow> scaler" where
  "add_visible_time s dm record_to_ledger =
     (let s1 = s\<lparr>visible_time_remaining := max 0 (visible_time_remaining s + dm)\<rparr>;
          s2 = s1\<lparr>visible_total_time :=
                     max (visible_total_time s1) (visible_time_remaining s1)\<rparr>
      in if record_to_ledger
         then s2\<lparr>awarded_time_ledger := awarded_time_ledger s2 + dm\<rparr>
         else s2)"

subsection \<open>Time reward calculation\<close>

definition calculate_time_reward :: "scaler \<Rightarrow> real" where
  "calculate_time_reward s =
     (let vtr = max 0 (visible_time_remaining s);
          eff_total = max (1 / 10 ^ 9) (effective_total s);
          t = max 0 (min (vtr / eff_total) 1);
          base = normal_time_reward s;
          max_late = low_time_reward s
      in if vtr < 20 then max_late
         else
           let cap =
                 (if vtr \<ge> high_time_threshold s then high_time_cap s
                  else if vtr \<le> low_time_threshold s then max_late
                  else
                    let span = max (1 / 10 ^ 9) (high_time_threshold s - low_time_threshold s);
                        frac = (high_time_threshold s - vtr) / span
                    in high_time_cap s + (max_late - high_time_cap s) * frac);
               reward = base + (max_late - base) * (1 - t) ^ 2
           in max base (min reward cap))"

subsection \<open>Milestone logic\<close>

definition complete_milestone :: "scaler \<Rightarrow> scaler \<times> real" where
  "complete_milestone s =
     (let s1 = s\<lparr>earned_points := earned_points s + milestone_value s\<rparr>;
          time_bonus = calculate_time_reward s1
      in (s1, time_bonus))"

text \<open>
  Python's \<open>round\<close> with one argument rounds to the nearest integer and a tie to the even
  neighbour.
\<close>

definition py_round :: "real \<Rightarrow> int" where
  "py_round x =
     (let f = \<lfloor>x\<rfloor>; d = x - of_int f
      in if d < 1 / 2 then f
         else if d > 1 / 2 then f + 1
         else if even f then f else f + 1)"

text \<open>
  \<open>update_milestone_value\<close>. Python's \<open>/\<close> raises \<open>ZeroDivisionError\<close> on a zero divisor
  (also on floats); the source divides by \<open>target_win_time\<close> and by the effective total,
  neither of which it guards, and the exception leaves before any attribute is assigned.
  The other divisors are positive where they are used. The base of \<open>**\<close> is positive in
  its branch, so the power is \<open>powr\<close>.
\<close>

definition update_milestone_value :: "scaler \<Rightarrow> error + (scaler \<times> int)" where
  "update_milestone_value s =
     (let vtr = visible_time_remaining s;
          eff_total = effective_total s;
          visible_elapsed = max 0 (eff_total - vtr);
          elapsed_for_target = min visible_elapsed (target_win_time s)
      in if target_win_time s = 0 then Inl ZeroDivisionError
         else
           let expected_points = (elapsed_for_target / target_win_time s) * target_points s;
               pace_ratio = (if expected_points > 0 then earned_points s / expected_points
                             else 1)
           in if eff_total = 0 then Inl ZeroDivisionError
              else
                let t = max 0 (min (vtr / eff_total) 1);
                    reduction_strength = adjustment_rate s * (1 + t ^ 2);
                    increase_strength = adjustment_rate s / (1 + t ^ 2);
                    mv = (if pace_ratio > 1
                          then milestone_value s * (1 / pace_ratio) powr reduction_strength
                          else if pace_ratio < 1
                          then milestone_value s * (1 + increase_strength * (1 - pace_ratio))
                          else milestone_value s);
                    clamped = max (min_milestone_value s) (min mv (max_milestone_value s));
                    r = py_round clamped
                in Inr (s\<lparr>milestone_value := of_int r\<rparr>, r))"

subsection \<open>State I/O\<close>

definition get_progress :: "scaler \<Rightarrow> real" where
  "get_progress s = earned_points s"

text \<open>
  The file system: what each existing path holds, and the paths that \<open>open(path, "w")\<close>
  refuses. A file is described by what \<open>open(path, "r")\<close> and \<open>json.load\<close> make of it:
  \<^item> \<open>Unreadable\<close>: \<open>open\<close> raises \<open>OSError\<close>;
  \<^item> \<open>Unparsable\<close>: \<open>json.load\<close> raises \<open>JSONDecodeError\<close>;
  \<^item> \<open>NotAnObject\<close>: \<open>json.load\<close> returns a value that is no dictionary, and the first
    \<open>state.get\<close> raises \<open>AttributeError\<close>;
  \<^item> \<open>Snapshot\<close>: \<open>json.load\<close> returns a dictionary.

  A value of the dictionary is described by what \<open>float\<close> makes of it: the number it
  yields, or the exception it raises (\<open>TypeError\<close> for \<open>null\<close>, a list or an object,
  \<open>ValueError\<close> for a string that is no number, \<open>OverflowError\<close> for an integer beyond
  the range of a float).
\<close>

datatype jvalue = Num real | Rejected error

datatype content =
    Unreadable
  | Unparsable
  | NotAnObject
  | Snapshot "string \<rightharpoonup> jvalue"

record filesystem =
  files :: "string \<rightharpoonup> content"
  unwritable :: "string set"

text \<open>The dictionary that \<open>save_state\<close> dumps, in the order of the source.\<close>

definition state_dict :: "scaler \<Rightarrow> (string \<times> real) list" where
  "state_dict s =
     [(''target_points'', target_points s),
      (''initial_milestone_value'', initial_milestone_value s),
      (''milestone_value'', milestone_value s),
      (''earned_points'', earned_points s),
      (''visible_total_time'', visible_total_time s),
      (''visible_time_remaining'', visible_time_remaining s),
      (''target_win_time'', target_win_time s),
      (''normal_time_reward'', normal_time_reward s),
      (''low_time_reward'', low_time_reward s),
      (''high_time_threshold'', high_time_threshold s),
      (''low_time_threshold'', low_time_threshold s),
      (''high_time_cap'', high_time_cap s),
      (''start_visible_total_time'', start_visible_total_time s),
      (''awarded_time_ledger'', awarded_time_ledger s),
      (''adjustment_rate'', adjustment_rate s),
      (''min_milestone_value'', min_milestone_value s),
      (''max_milestone_value'', max_milestone_value s)]"

text \<open>
  What a later \<open>json.load\<close> makes of the file that \<open>json.dump\<close> writes for a dictionary of
  numbers: a dictionary with the same keys and the same numbers.
\<close>

definition json_dump :: "(string \<times> real) list \<Rightarrow> content" where
  "json_dump d = Snapshot (\<lambda>key. map_option Num (map_of d key))"

definition save_state :: "scaler \<Rightarrow> filesystem \<Rightarrow> string \<Rightarrow> error + filesystem" where
  "save_state s fs filepath =
     (if filepath \<in> unwritable fs then Inl OSError
      else Inr (fs\<lparr>files := (files fs)(filepath \<mapsto> json_dump (state_dict s))\<rparr>))"

text \<open>
  The seventeen assignments of \<open>load_state\<close>, in the order of the source: the key, the
  attribute read for the default, and the attribute assigned.
\<close>

type_synonym attribute = "string \<times> (scaler \<Rightarrow> real) \<times> (real \<Rightarrow> scaler \<Rightarrow> scaler)"

definition persisted :: "attribute list" where
  "persisted =
     [(''target_points'', target_points, \<lambda>v s. s\<lparr>target_points := v\<rparr>),
      (''initial_milestone_value'', initial_milestone_value,
         \<lambda>v s. s\<lparr>initial_milestone_value := v\<rparr>),
      (''milestone_value'', milestone_value, \<lambda>v s. s\<lparr>milestone_value := v\<rparr>),
      (''earned_points'', earned_points, \<lambda>v s. s\<lparr>earned_points := v\<rparr>),
      (''visible_total_time'', visible_total_time, \<lambda>v s. s\<lparr>visible_total_time := v\<rparr>),
      (''visible_time_remaining'', visible_time_remaining,
         \<lambda>v s. s\<lparr>visible_time_remaining := v\<rparr>),
      (''target_win_time'', target_win_time, \<lambda>v s. s\<lparr>target_win_time := v\<rparr>),
      (''normal_time_reward'', normal_time_reward, \<lambda>v s. s\<lparr>normal_time_reward := v\<rparr>),
      (''low_time_reward'', low_time_reward, \<lambda>v s. s\<lparr>low_time_reward := v\<rparr>),
      (''high_time_threshold'', high_time_threshold, \<lambda>v s. s\<lparr>high_time_threshold := v\<rparr>),
      (''low_time_threshold'', low_time_threshold, \<lambda>v s. s\<lparr>low_time_threshold := v\<rparr>),
      (''high_time_cap'', high_time_cap, \<lambda>v s. s\<lparr>high_time_cap := v\<rparr>),
      (''start_visible_total_time'', start_visible_total_time,
         \<lambda>v s. s\<lparr>start_visible_total_time := v\<rparr>),
      (''awarded_time_ledger'', awarded_time_ledger, \<lambda>v s. s\<lparr>awarded_time_ledger := v\<rparr>),
      (''adjustment_rate'', adjustment_rate, \<lambda>v s. s\<lparr>adjustment_rate := v\<rparr>),
      (''min_milestone_value'', min_milestone_value, \<lambda>v s. s\<lparr>min_milestone_value := v\<rparr>),
      (''max_milestone_value'', max_milestone_value, \<lambda>v s. s\<lparr>max_milestone_value := v\<rparr>)]"

text \<open>
  One assignment \<open>self.a = float(state.get(key, self.a))\<close> after the other. A missing key
  assigns the attribute its own value. A value that \<open>float\<close> rejects raises with the
  earlier attributes already assigned: the error carries the instance as the exception
  leaves it.
\<close>

fun restore :: "(string \<rightharpoonup> jvalue) \<Rightarrow> attribute list \<Rightarrow> scaler \<Rightarrow> (error \<times> scaler) + scaler" where
  "restore state [] s = Inr s"
| "restore state ((key, attr, assign) # rest) s =
     (case state key of
        None \<Rightarrow> restore state rest (assign (attr s) s)
      | Some (Num v) \<Rightarrow> restore state rest (assign v s)
      | Some (Rejected e) \<Rightarrow> Inl (e, s))"

text \<open>
  \<open>load_state\<close>: \<open>Inr\<close> the instance and the returned boolean, \<open>Inl\<close> the exception and
  the instance it leaves behind.
\<close>

definition load_state ::
  "scaler \<Rightarrow> filesystem \<Rightarrow> string \<Rightarrow> (error \<times> scaler) + (scaler \<times> bool)" where
  "load_state s fs filepath =
     (case files fs filepath of
        None \<Rightarrow> Inr (s, False)
      | Some Unreadable \<Rightarrow> Inl (OSError, s)
      | Some Unparsable \<Rightarrow> Inl (JSONDecodeError, s)
      | Some NotAnObject \<Rightarrow> Inl (AttributeError, s)
      | Some (Snapshot state) \<Rightarrow>
          (case restore state persisted s of
             Inl raised \<Rightarrow> Inl raised
           | Inr s' \<Rightarrow> Inr (s', True)))"

subsection \<open>Sequences of calls\<close>

text \<open>
  The public methods, \<open>load_state\<close> apart, as operations of the engine on one instance.
  A call of \<open>update_milestone_value\<close> that raises has assigned nothing, so it leaves the
  instance as it was. \<open>get_progress\<close>, \<open>get_game_state\<close> and \<open>save_state\<close> assign to no
  attribute: whatever they return or raise, the instance is as it was.
\<close>

datatype op =
    SetProgress real
  | SetVisibleTimeRemaining real
  | SetVisibleTotalTime real
  | SetVisibleTime real real
  | AddVisibleTime real bool
  | CompleteMilestone
  | UpdateMilestoneValue
  | GetProgress
  | GetGameState
  | SaveState string

fun apply_op :: "scaler \<Rightarrow> op \<Rightarrow> scaler" where
  "apply_op s (SetProgress p) = set_progress s p"
| "apply_op s (SetVisibleTimeRemaining r) = set_visible_time_remaining s r"
| "apply_op s (SetVisibleTotalTime v) = set_visible_total_time s v"
| "apply_op s (SetVisibleTime r v) = set_visible_time s r v"
| "apply_op s (AddVisibleTime dm b) = add_visible_time s dm b"
| "apply_op s CompleteMilestone = fst (complete_milestone s)"
| "apply_op s UpdateMilestoneValue =
     (case update_milestone_value s of Inl e \<Rightarrow> s | Inr (s', r) \<Rightarrow> s')"
| "apply_op s GetProgress = s"
| "apply_op s GetGameState = s"
| "apply_op s (SaveState filepath) = s"

fun run :: "scaler \<Rightarrow> op list \<Rightarrow> scaler" where
  "run s [] = s"
| "run s (x # xs) = run (apply_op s x) xs"

fun is_set_progress :: "op \<Rightarrow> bool" where
  "is_set_progress (SetProgress p) = True"
| "is_set_progress x = False"

section \<open>The specification's formulas\<close>

text \<open>
  The reference definitions of the specification, written from its words, to be compared
  with the functions above.
\<close>

definition clamp :: "real \<Rightarrow> real \<Rightarrow> real \<Rightarrow> real" where
  "clamp x lo hi = max lo (min x hi)"

subsection \<open>Time reward (section 4.2 of the specification)\<close>

text \<open>The cap as the specification words it: the interpolation divides by the span.\<close>

definition cap_spec :: "scaler \<Rightarrow> real \<Rightarrow> real" where
  "cap_spec s vtr =
     (if vtr \<ge> high_time_threshold s then high_time_cap s
      else if vtr \<le> low_time_threshold s then low_time_reward s
      else high_time_cap s + (low_time_reward s - high_time_cap s) *
             (high_time_threshold s - vtr) / (high_time_threshold s - low_time_threshold s))"

text \<open>The same cap with the span floored at \<open>1e-9\<close> before the division.\<close>

definition cap_guarded :: "scaler \<Rightarrow> real \<Rightarrow> real" where
  "cap_guarded s vtr =
     (if vtr \<ge> high_time_threshold s then high_time_cap s
      else if vtr \<le> low_time_threshold s then low_time_reward s
      else high_time_cap s + (low_time_reward s - high_time_cap s) *
             (high_time_threshold s - vtr) /
             max (1 / 10 ^ 9) (high_time_threshold s - low_time_threshold s))"

definition time_fraction :: "scaler \<Rightarrow> real" where
  "time_fraction s =
     clamp (max 0 (visible_time_remaining s) / max (1 / 10 ^ 9) (effective_total s)) 0 1"

text \<open>The reward of section 4.2, for either cap.\<close>

definition reference_reward :: "(scaler \<Rightarrow> real \<Rightarrow> real) \<Rightarrow> scaler \<Rightarrow> real" where
  "reference_reward cap s =
     (let vtr = max 0 (visible_time_remaining s);
          t = time_fraction s
      in if vtr < 20 then low_time_reward s
         else clamp (normal_time_reward s
                       + (low_time_reward s - normal_time_reward s) * (1 - t) ^ 2)
                (normal_time_reward s) (cap s vtr))"

subsection \<open>Milestone value (section 4.3 of the specification)\<close>

definition visible_elapsed_spec :: "scaler \<Rightarrow> real" where
  "visible_elapsed_spec s = max 0 (effective_total s - visible_time_remaining s)"

definition expected_score_spec :: "scaler \<Rightarrow> real" where
  "expected_score_spec s =
     (min (visible_elapsed_spec s) (target_win_time s) / target_win_time s) * target_points s"

definition pace_ratio_spec :: "scaler \<Rightarrow> real" where
  "pace_ratio_spec s =
     (if expected_score_spec s > 0 then earned_points s / expected_score_spec s else 1)"

definition time_fraction_spec :: "scaler \<Rightarrow> real" where
  "time_fraction_spec s = clamp (visible_time_remaining s / effective_total s) 0 1"

definition adjusted_value_spec :: "scaler \<Rightarrow> real" where
  "adjusted_value_spec s =
     (if pace_ratio_spec s > 1
      then milestone_value s *
             (1 / pace_ratio_spec s) powr (adjustment_rate s * (1 + (time_fraction_spec s) ^ 2))
      else if pace_ratio_spec s < 1
      then milestone_value s *
             (1 + (adjustment_rate s / (1 + (time_fraction_spec s) ^ 2)) * (1 - pace_ratio_spec s))
      else milestone_value s)"

definition milestone_value_spec :: "scaler \<Rightarrow> int" where
  "milestone_value_spec s =
     py_round (clamp (adjusted_value_spec s) (min_milestone_value s) (max_milestone_value s))"

subsection \<open>Instances used as examples\<close>

text \<open>
  The default instance after \<open>load_state\<close> of a snapshot whose two thresholds are
  \<open>5e-10\<close> apart, with a reading between them.
\<close>

definition narrow_band :: scaler where
  "narrow_band = default_scaler
     \<lparr> visible_total_time := 4000,
       visible_time_remaining := 40 + 1 / (4 * 10 ^ 9),
       high_time_threshold := 40 + 1 / (2 * 10 ^ 9),
       low_time_threshold := 40 \<rparr>"

text \<open>
  The default instance after \<open>load_state\<close> of a snapshot whose \<open>normal_time_reward\<close> is 30,
  above its \<open>low_time_reward\<close> of 20.
\<close>

definition inverted_rewards :: scaler where
  "inverted_rewards = default_scaler\<lparr>normal_time_reward := 30\<rparr>"

text \<open>\<open>DynamicDifficultyScaler(visible_total_time=-5)\<close>.\<close>

definition negative_clock :: scaler where
  "negative_clock = init 100 10 (- 5) 400 (1 / 4) 1 20"

text \<open>\<open>DynamicDifficultyScaler(initial_milestone_value=1, min_milestone_value=1.4)\<close>.\<close>

definition fractional_minimum :: scaler where
  "fractional_minimum = init 100 1 100 400 (1 / 4) (7 / 5) 20"

text \<open>\<open>DynamicDifficultyScaler(initial_milestone_value=-3)\<close>.\<close>

definition negative_milestone :: scaler where
  "negative_milestone = init 100 (- 3) 100 400 (1 / 4) 1 20"

section \<open>Properties\<close>

subsection \<open>Attributes of the constructed instances\<close>

lemma init_fields:
  "target_points (init tp imv vtt twt ar mn mx) = tp"
  "initial_milestone_value (init tp imv vtt twt ar mn mx) = imv"
  "visible_total_time (init tp imv vtt twt ar mn mx) = vtt"
  "target_win_time (init tp imv vtt twt ar mn mx) = twt"
  "adjustment_rate (init tp imv vtt twt ar mn mx) = ar"
  "min_milestone_value (init tp imv vtt twt ar mn mx) = mn"
  "max_milestone_value (init tp imv vtt twt ar mn mx) = mx"
  "earned_points (init tp imv vtt twt ar mn mx) = 0"
  "milestone_value (init tp imv vtt twt ar mn mx) = imv"
  "visible_time_remaining (init tp imv vtt twt ar mn mx) = vtt"
  "normal_time_reward (init tp imv vtt twt ar mn mx) = 1"
  "low_time_reward (init tp imv vtt twt ar mn mx) = 20"
  "high_time_threshold (init tp imv vtt twt ar mn mx) = 50"
  "low_time_threshold (init tp imv vtt twt ar mn mx) = 30"
  "high_time_cap (init tp imv vtt twt ar mn mx) = 5"
  "start_visible_total_time (init tp imv vtt twt ar mn mx) = vtt"
  "awarded_time_ledger (init tp imv vtt twt ar mn mx) = 0"
  "visible_elapsed (init tp imv vtt twt ar mn mx) = None"
  by (simp_all add: init_def)

lemma default_fields:
  "target_points default_scaler = 100"
  "initial_milestone_value default_scaler = 10"
  "visible_total_time default_scaler = 100"
  "target_win_time default_scaler = 400"
  "adjustment_rate default_scaler = 1 / 4"
  "min_milestone_value default_scaler = 1"
  "max_milestone_value default_scaler = 20"
  "earned_points default_scaler = 0"
  "milestone_value default_scaler = 10"
  "visible_time_remaining default_scaler = 100"
  "normal_time_reward default_scaler = 1"
  "low_time_reward default_scaler = 20"
  "high_time_threshold default_scaler = 50"
  "low_time_threshold default_scaler = 30"
  "high_time_cap default_scaler = 5"
  "start_visible_total_time default_scaler = 100"
  "awarded_time_ledger default_scaler = 0"
  "visible_elapsed default_scaler = None"
  by (simp_all add: default_scaler_def init_fields)

subsection \<open>The score setter\<close>

text \<open>
  C10. For every input \<open>p\<close>, also a negative one and one below the current score,
  \<open>set_progress\<close> stores \<open>p\<close> itself as the earned score and changes no other attribute.
\<close>

theorem set_progress_stores_exactly:
  "set_progress s p = s\<lparr>earned_points := p\<rparr>"
  by (simp add: set_progress_def)

subsection \<open>The effective total and the clock\<close>

lemma effective_total_ge_remaining: "visible_time_remaining s \<le> effective_total s"
  by (simp add: effective_total_def)

subsection \<open>The milestone value\<close>

text \<open>
  The source function against the formulas of section 4.3: where both divisors are
  non-zero it returns the specified value and stores it; where one is zero it raises.
\<close>

lemma update_milestone_value_eq:
  "update_milestone_value s =
     (if target_win_time s = 0 \<or> effective_total s = 0 then Inl ZeroDivisionError
      else Inr (s\<lparr>milestone_value := of_int (milestone_value_spec s)\<rparr>,
                milestone_value_spec s))"
proof (cases "target_win_time s = 0")
  case True
  then show ?thesis by (simp add: update_milestone_value_def Let_def)
next
  case twt: False
  show ?thesis
  proof (cases "effective_total s = 0")
    case True
    with twt show ?thesis by (simp add: update_milestone_value_def Let_def)
  next
    case False
    with twt show ?thesis
      unfolding update_milestone_value_def milestone_value_spec_def adjusted_value_spec_def
        time_fraction_spec_def pace_ratio_spec_def expected_score_spec_def
        visible_elapsed_spec_def clamp_def Let_def
      by (simp only: if_False HOL.simp_thms)
  qed
qed

text \<open>
  The rounding is to the nearest integer, a tie going to the even neighbour.
\<close>

lemma py_round_nearest: "\<bar>of_int (py_round x) - x\<bar> \<le> 1 / 2"
proof -
  have "of_int \<lfloor>x\<rfloor> \<le> x" "x < of_int \<lfloor>x\<rfloor> + 1" by linarith+
  then show ?thesis by (auto simp add: py_round_def Let_def abs_le_iff)
qed

lemma py_round_tie:
  assumes "x - of_int \<lfloor>x\<rfloor> = 1 / 2"
  shows "even (py_round x)"
  using assms by (simp add: py_round_def Let_def)

text \<open>
  C3. The claim: \<open>update_milestone_value\<close> computes the elapsed time, the expected score,
  the pace ratio and the time fraction, adjusts the milestone value, clamps, rounds, stores
  and returns it. The code does so wherever \<open>target_win_time\<close> and the effective total are
  non-zero (\<open>update_milestone_value_eq\<close>). It divides by the effective total as it is,
  where \<open>calculate_time_reward\<close> floors it at \<open>1e-9\<close> first: on the default instance after
  \<open>add_visible_time(-150)\<close> and \<open>set_visible_total_time(0)\<close> the effective total is zero,
  \<open>calculate_time_reward\<close> returns 20, and \<open>update_milestone_value\<close> raises
  \<open>ZeroDivisionError\<close> with nothing stored or returned.
\<close>

theorem update_milestone_value_zero_total:
  "effective_total (run default_scaler [AddVisibleTime (- 150) True, SetVisibleTotalTime 0]) = 0
   \<and> target_win_time (run default_scaler [AddVisibleTime (- 150) True, SetVisibleTotalTime 0])
       = 400
   \<and> calculate_time_reward
        (run default_scaler [AddVisibleTime (- 150) True, SetVisibleTotalTime 0]) = 20
   \<and> update_milestone_value
        (run default_scaler [AddVisibleTime (- 150) True, SetVisibleTotalTime 0])
       = Inl ZeroDivisionError"
proof -
  define z where "z = run default_scaler [AddVisibleTime (- 150) True, SetVisibleTotalTime 0]"
  have f: "visible_time_remaining z = 0" "visible_total_time z = 0"
    "start_visible_total_time z = 100" "awarded_time_ledger z = - 150"
    "target_win_time z = 400" "low_time_reward z = 20"
    by (simp_all add: z_def add_visible_time_def set_visible_total_time_def Let_def
        default_fields)
  have e: "effective_total z = 0"
    by (simp add: effective_total_def f)
  have r: "calculate_time_reward z = 20"
    by (simp add: calculate_time_reward_def Let_def f)
  have u: "update_milestone_value z = Inl ZeroDivisionError"
    by (simp add: update_milestone_value_eq e)
  show ?thesis using e f(5) r u by (simp only: z_def simp_thms)
qed

lemma update_milestone_value_state:
  assumes "update_milestone_value s = Inr (s', r)"
  shows "r = milestone_value_spec s" and "s' = s\<lparr>milestone_value := of_int r\<rparr>"
  using assms by (auto simp add: update_milestone_value_eq split: if_splits)

lemma apply_op_update:
  "apply_op s UpdateMilestoneValue = s \<or>
   (\<exists>r. apply_op s UpdateMilestoneValue = s\<lparr>milestone_value := of_int r\<rparr>)"
  by (auto simp add: update_milestone_value_eq)

lemma py_round_of_int: "py_round (of_int n) = n"
  by (simp add: py_round_def)

lemma py_round_ge:
  assumes "of_int n \<le> x"
  shows "n \<le> py_round x"
proof -
  have "n \<le> \<lfloor>x\<rfloor>" using assms by (simp add: le_floor_iff)
  then show ?thesis by (simp add: py_round_def Let_def)
qed

lemma py_round_le:
  assumes "x \<le> of_int n"
  shows "py_round x \<le> n"
proof (cases "x = of_int n")
  case True
  then show ?thesis by (simp add: py_round_of_int)
next
  case False
  with assms have "x < of_int n" by simp
  then have "\<lfloor>x\<rfloor> < n" by (simp add: floor_less_iff)
  then show ?thesis by (simp add: py_round_def Let_def)
qed

lemma milestone_value_spec_bounds:
  assumes "min_milestone_value s \<le> max_milestone_value s"
    and "min_milestone_value s \<in> \<int>" and "max_milestone_value s \<in> \<int>"
  shows "min_milestone_value s \<le> of_int (milestone_value_spec s)"
    and "of_int (milestone_value_spec s) \<le> max_milestone_value s"
proof -
  obtain a b where a: "min_milestone_value s = of_int a"
    and b: "max_milestone_value s = of_int b"
    using assms(2,3) by (auto elim!: Ints_cases)
  let ?c = "clamp (adjusted_value_spec s) (min_milestone_value s) (max_milestone_value s)"
  have "of_int a \<le> ?c" "?c \<le> of_int b"
    using assms(1) a b by (simp_all add: clamp_def)
  then have "a \<le> py_round ?c" "py_round ?c \<le> b"
    by (simp_all add: py_round_ge py_round_le)
  then show "min_milestone_value s \<le> of_int (milestone_value_spec s)"
    and "of_int (milestone_value_spec s) \<le> max_milestone_value s"
    by (simp_all add: milestone_value_spec_def a b)
qed

text \<open>On a fresh instance no time has elapsed, so the pace ratio is 1.\<close>

lemma fresh_effective_total: "effective_total (init tp imv vtt twt ar mn mx) = vtt"
  by (simp add: effective_total_def init_fields)

lemma fresh_pace_ratio:
  assumes "0 < twt"
  shows "pace_ratio_spec (init tp imv vtt twt ar mn mx) = 1"
  using assms
  by (simp add: pace_ratio_spec_def expected_score_spec_def visible_elapsed_spec_def
      fresh_effective_total init_fields)

lemma fresh_milestone_value:
  assumes "0 < twt"
  shows "milestone_value_spec (init tp imv vtt twt ar mn mx) = py_round (clamp imv mn mx)"
  using assms
  by (simp add: milestone_value_spec_def adjusted_value_spec_def fresh_pace_ratio init_fields)

lemma fresh_update:
  assumes "0 < twt" "vtt \<noteq> 0"
  shows "update_milestone_value (init tp imv vtt twt ar mn mx) =
           Inr ((init tp imv vtt twt ar mn mx)
                  \<lparr>milestone_value := of_int (py_round (clamp imv mn mx))\<rparr>,
                py_round (clamp imv mn mx))"
  using assms
  by (simp add: update_milestone_value_eq fresh_effective_total fresh_milestone_value
      init_fields)

text \<open>
  Two runs of the source function: behind pace with half the time gone, the default
  milestone value 10 grows to 12; on an instance constructed with no time at all, the
  effective total is zero and the call raises.
\<close>

lemma update_milestone_value_examples:
  "update_milestone_value (set_visible_time_remaining default_scaler 50)
     = Inr ((set_visible_time_remaining default_scaler 50)\<lparr>milestone_value := 12\<rparr>, 12)"
  "update_milestone_value (init 100 10 0 400 (1 / 4) 1 20) = Inl ZeroDivisionError"
proof -
  let ?s = "set_visible_time_remaining default_scaler 50"
  have f: "visible_time_remaining ?s = 50" "visible_total_time ?s = 100"
    "start_visible_total_time ?s = 100" "awarded_time_ledger ?s = 0"
    "target_win_time ?s = 400" "target_points ?s = 100" "earned_points ?s = 0"
    "milestone_value ?s = 10" "adjustment_rate ?s = 1 / 4"
    "min_milestone_value ?s = 1" "max_milestone_value ?s = 20"
    by (simp_all add: set_visible_time_remaining_def default_fields)
  have e: "effective_total ?s = 100"
    by (simp add: effective_total_def f)
  have p: "pace_ratio_spec ?s = 0"
    by (simp add: pace_ratio_spec_def expected_score_spec_def visible_elapsed_spec_def e f)
  have t: "time_fraction_spec ?s = 1 / 2"
    by (simp add: time_fraction_spec_def clamp_def e f)
  have a: "adjusted_value_spec ?s = 12"
    by (simp add: adjusted_value_spec_def p t f power2_eq_square)
  have "milestone_value_spec ?s = 12"
    by (simp add: milestone_value_spec_def a clamp_def py_round_def f)
  then show "update_milestone_value ?s = Inr (?s\<lparr>milestone_value := 12\<rparr>, 12)"
    by (simp add: update_milestone_value_eq e f)
  show "update_milestone_value (init 100 10 0 400 (1 / 4) 1 20) = Inl ZeroDivisionError"
    by (simp add: update_milestone_value_eq fresh_effective_total)
qed

text \<open>Ahead of pace at the end of the clock: the value 10 shrinks to 5.\<close>

lemma sixteenth_root: "(1 / 16 :: real) powr (1 / 4) = 1 / 2"
proof -
  have a: "(1 / 2 :: real) powr 4 = 1 / 16" by (simp add: power_divide)
  have "(1 / 16 :: real) powr (1 / 4) = ((1 / 2) powr 4) powr (1 / 4)" by (simp only: a)
  also have "\<dots> = (1 / 2) powr (4 * (1 / 4))" by (rule powr_powr)
  also have "\<dots> = 1 / 2" by simp
  finally show ?thesis .
qed

lemma update_ahead_of_pace:
  "update_milestone_value (set_progress (set_visible_time_remaining default_scaler 0) 400)
     = Inr ((set_progress (set_visible_time_remaining default_scaler 0) 400)
              \<lparr>milestone_value := 5\<rparr>, 5)"
proof -
  let ?s = "set_progress (set_visible_time_remaining default_scaler 0) 400"
  have f: "visible_time_remaining ?s = 0" "visible_total_time ?s = 100"
    "start_visible_total_time ?s = 100" "awarded_time_ledger ?s = 0"
    "target_win_time ?s = 400" "target_points ?s = 100" "earned_points ?s = 400"
    "milestone_value ?s = 10" "adjustment_rate ?s = 1 / 4"
    "min_milestone_value ?s = 1" "max_milestone_value ?s = 20"
    by (simp_all add: set_progress_def set_visible_time_remaining_def default_fields)
  have e: "effective_total ?s = 100"
    by (simp add: effective_total_def f)
  have p: "pace_ratio_spec ?s = 16"
    by (simp add: pace_ratio_spec_def expected_score_spec_def visible_elapsed_spec_def e f)
  have t: "time_fraction_spec ?s = 0"
    by (simp add: time_fraction_spec_def clamp_def e f)
  have a: "adjusted_value_spec ?s = 5"
    by (simp add: adjusted_value_spec_def p t f sixteenth_root)
  have "milestone_value_spec ?s = 5"
    by (simp add: milestone_value_spec_def a clamp_def py_round_def f)
  then show ?thesis
    by (simp add: update_milestone_value_eq e f)
qed

text \<open>
  C4, as the code has it. After a call of \<open>update_milestone_value\<close> that returns, the
  stored milestone value is the returned integer; it lies between \<open>min_milestone_value\<close>
  and \<open>max_milestone_value\<close> whenever the minimum is at most the maximum and both are
  integers (as the defaults 1 and 20 are). The code clamps first and rounds afterwards.
\<close>

theorem milestone_value_integer_in_bounds:
  assumes "update_milestone_value s = Inr (s', r)"
  shows "milestone_value s' = of_int r
       \<and> (min_milestone_value s \<le> max_milestone_value s
            \<and> min_milestone_value s \<in> \<int> \<and> max_milestone_value s \<in> \<int>
          \<longrightarrow> min_milestone_value s' \<le> of_int r \<and> of_int r \<le> max_milestone_value s')"
proof -
  from assms have r: "r = milestone_value_spec s"
    and s': "s' = s\<lparr>milestone_value := of_int r\<rparr>"
    by (rule update_milestone_value_state)+
  show ?thesis using milestone_value_spec_bounds [of s] by (simp add: r s')
qed

theorem milestone_value_integer_in_bounds_witness:
  "update_milestone_value default_scaler = Inr (default_scaler\<lparr>milestone_value := 10\<rparr>, 10)
   \<and> min_milestone_value default_scaler \<le> max_milestone_value default_scaler
   \<and> min_milestone_value default_scaler \<in> \<int> \<and> max_milestone_value default_scaler \<in> \<int>
   \<and> milestone_value (default_scaler\<lparr>milestone_value := 10\<rparr>) = of_int 10
   \<and> min_milestone_value (default_scaler\<lparr>milestone_value := 10\<rparr>) \<le> of_int 10
   \<and> of_int 10 \<le> max_milestone_value (default_scaler\<lparr>milestone_value := 10\<rparr>)"
proof -
  have "py_round (clamp 10 1 20) = 10"
    by (simp add: clamp_def py_round_def)
  then have h: "update_milestone_value default_scaler
             = Inr (default_scaler\<lparr>milestone_value := 10\<rparr>, 10)"
    unfolding default_scaler_def by (simp add: fresh_update)
  have b: "min_milestone_value default_scaler \<le> max_milestone_value default_scaler
         \<and> min_milestone_value default_scaler \<in> \<int> \<and> max_milestone_value default_scaler \<in> \<int>"
    by (simp add: default_fields)
  show ?thesis using h b milestone_value_integer_in_bounds [OF h] by simp
qed

text \<open>
  The claim as worded fails where a bound is not an integer: on an instance constructed
  with milestone value 1 and minimum 1.4, the call clamps 1 to 1.4, rounds it to 1 and
  returns 1, which is below the minimum.
\<close>

theorem milestone_value_below_minimum:
  "update_milestone_value fractional_minimum
     = Inr (fractional_minimum\<lparr>milestone_value := 1\<rparr>, 1)
   \<and> (1::real) < min_milestone_value fractional_minimum"
proof -
  have "py_round (clamp 1 (7 / 5) 20) = 1"
    by (simp add: clamp_def py_round_def)
  then show ?thesis
    unfolding fractional_minimum_def by (simp add: fresh_update init_fields)
qed

subsection \<open>Sequences of operations\<close>

lemma apply_op_remaining:
  assumes "0 \<le> visible_time_remaining s"
  shows "0 \<le> visible_time_remaining (apply_op s x)"
proof (cases x)
  case UpdateMilestoneValue
  with apply_op_update [of s] assms show ?thesis by auto
qed (use assms in \<open>simp_all add: set_progress_def set_visible_time_remaining_def
      set_visible_total_time_def set_visible_time_def add_visible_time_def
      complete_milestone_def Let_def\<close>)

lemma run_remaining:
  "0 \<le> visible_time_remaining s \<Longrightarrow> 0 \<le> visible_time_remaining (run s xs)"
  by (induction xs arbitrary: s) (simp_all add: apply_op_remaining)

text \<open>
  C1, as the code has it. For every state reached by a sequence of the operations of
  \<open>op\<close> (the six operations of the claim, the score setter and the reading methods) the
  effective total is the maximum of the three quantities and is at least the remaining
  time, from whatever state the sequence starts. The remaining time is non-negative in
  every such state when the sequence starts from a state where it is non-negative, hence
  from every instance constructed with a non-negative \<open>visible_total_time\<close>: the setters
  clamp their argument, the constructor does not.
\<close>

theorem elapsed_never_negative:
  "effective_total (run s xs) =
     max (max (start_visible_total_time (run s xs) + awarded_time_ledger (run s xs))
              (visible_total_time (run s xs)))
       (visible_time_remaining (run s xs))
   \<and> 0 \<le> effective_total (run s xs) - visible_time_remaining (run s xs)
   \<and> (0 \<le> visible_time_remaining s \<longrightarrow> 0 \<le> visible_time_remaining (run s xs))
   \<and> (0 \<le> vtt \<longrightarrow> 0 \<le> visible_time_remaining (run (init tp imv vtt twt ar mn mx) xs))"
proof -
  have "0 \<le> vtt \<longrightarrow> 0 \<le> visible_time_remaining (run (init tp imv vtt twt ar mn mx) xs)"
    by (simp add: run_remaining init_fields)
  then show ?thesis
    using effective_total_ge_remaining [of "run s xs"]
    by (simp add: effective_total_def run_remaining)
qed

theorem elapsed_never_negative_witness:
  "0 \<le> visible_time_remaining default_scaler
   \<and> 0 \<le> visible_time_remaining
         (run default_scaler
            [SetVisibleTime 60 40, AddVisibleTime (- 200) True, SetVisibleTotalTime 0,
             CompleteMilestone, UpdateMilestoneValue])
   \<and> (0::real) \<le> 100
   \<and> 0 \<le> visible_time_remaining
         (run (init 100 10 100 400 (1 / 4) 1 20)
            [SetVisibleTime 60 40, AddVisibleTime (- 200) True, SetVisibleTotalTime 0,
             CompleteMilestone, UpdateMilestoneValue])"
proof -
  have h: "0 \<le> visible_time_remaining default_scaler" "(0::real) \<le> 100"
    by (simp_all add: default_fields)
  show ?thesis
    using h elapsed_never_negative [of default_scaler
        "[SetVisibleTime 60 40, AddVisibleTime (- 200) True, SetVisibleTotalTime 0,
          CompleteMilestone, UpdateMilestoneValue]" 100 100 10 400 "1 / 4" 1 20]
    by blast
qed

text \<open>
  \<open>load_state\<close> is not among these operations: it stores the remaining time of the
  snapshot as it is.
\<close>

lemma load_state_negative_remaining:
  "load_state default_scaler
     \<lparr>files = [''game_state.json'' \<mapsto> Snapshot [''visible_time_remaining'' \<mapsto> Num (- 5)]],
      unwritable = {}\<rparr> ''game_state.json''
   = Inr (default_scaler\<lparr>visible_time_remaining := - 5\<rparr>, True)"
  by (simp add: load_state_def persisted_def)

text \<open>
  The claim as worded fails on an instance constructed with a negative total time: the
  constructor stores \<open>-5\<close> as the remaining time, and the operations that do not assign to
  it leave it negative.
\<close>

theorem remaining_negative_after_construction:
  "visible_time_remaining (run negative_clock [SetVisibleTotalTime 50, CompleteMilestone]) < 0"
  by (simp add: negative_clock_def init_fields set_visible_total_time_def
      complete_milestone_def Let_def)

text \<open>
  C9, as the code has it. Under every public operation other than \<open>load_state\<close> and the
  score setter \<open>set_progress\<close>, the earned score does not decrease when the milestone
  value is non-negative, and stays non-negative when it was: only \<open>complete_milestone\<close>
  assigns to it, adding the milestone value. \<open>set_progress\<close> overwrites it with its
  argument.
\<close>

theorem earned_points_non_decreasing:
  assumes "\<not> is_set_progress x" and "0 \<le> milestone_value s"
  shows "earned_points s \<le> earned_points (apply_op s x)
       \<and> (0 \<le> earned_points s \<longrightarrow> 0 \<le> earned_points (apply_op s x))"
proof (cases x)
  case UpdateMilestoneValue
  with apply_op_update [of s] show ?thesis by auto
qed (use assms in \<open>simp_all add: set_visible_time_remaining_def
      set_visible_total_time_def set_visible_time_def add_visible_time_def
      complete_milestone_def Let_def\<close>)

theorem earned_points_non_decreasing_witness:
  "\<not> is_set_progress CompleteMilestone \<and> 0 \<le> milestone_value default_scaler
   \<and> 0 \<le> earned_points default_scaler
   \<and> earned_points default_scaler \<le> earned_points (apply_op default_scaler CompleteMilestone)
   \<and> 0 \<le> earned_points (apply_op default_scaler CompleteMilestone)"
proof -
  have h: "\<not> is_set_progress CompleteMilestone" "0 \<le> milestone_value default_scaler"
    and e: "0 \<le> earned_points default_scaler"
    by (simp_all add: default_fields)
  show ?thesis
    using h e earned_points_non_decreasing [OF h] by blast
qed

text \<open>
  The claim as worded fails: \<open>set_progress(-5)\<close> on the default instance lowers the score
  from 0 to \<open>-5\<close>, and \<open>complete_milestone\<close> on an instance constructed with a negative
  milestone value lowers it below 0.
\<close>

theorem earned_points_decreases:
  "earned_points (set_progress default_scaler (- 5)) < earned_points default_scaler
   \<and> earned_points (set_progress default_scaler (- 5)) < 0
   \<and> earned_points (fst (complete_milestone negative_milestone))
       < earned_points negative_milestone"
  by (simp add: set_progress_def complete_milestone_def Let_def default_fields
      negative_milestone_def init_fields)

subsection \<open>The time reward\<close>

text \<open>
  The source function is the reward of section 4.2 with the guarded cap: the two differ
  in the order of one multiplication and division only.
\<close>

lemma calculate_time_reward_guarded:
  "calculate_time_reward s = reference_reward cap_guarded s"
  unfolding calculate_time_reward_def reference_reward_def cap_guarded_def time_fraction_def
    clamp_def Let_def
  by (simp only: times_divide_eq_right)

lemma cap_guarded_eq_spec:
  assumes "1 / 10 ^ 9 \<le> high_time_threshold s - low_time_threshold s"
  shows "cap_guarded s v = cap_spec s v"
  using assms by (simp add: cap_guarded_def cap_spec_def max_def)

lemma reference_reward_capped:
  assumes "\<not> max 0 (visible_time_remaining s) < 20"
    and "normal_time_reward s \<le> cap s (max 0 (visible_time_remaining s))"
    and "cap s (max 0 (visible_time_remaining s))
           \<le> normal_time_reward s
              + (low_time_reward s - normal_time_reward s) * (1 - time_fraction s) ^ 2"
  shows "reference_reward cap s = cap s (max 0 (visible_time_remaining s))"
  using assms by (simp add: reference_reward_def clamp_def Let_def)

lemma set_visible_time_fields:
  "visible_time_remaining (set_visible_time s r v) = max 0 r"
  "visible_total_time (set_visible_time s r v) = max 0 v"
  "start_visible_total_time (set_visible_time s r v) = start_visible_total_time s"
  "awarded_time_ledger (set_visible_time s r v) = awarded_time_ledger s"
  "normal_time_reward (set_visible_time s r v) = normal_time_reward s"
  "low_time_reward (set_visible_time s r v) = low_time_reward s"
  "high_time_threshold (set_visible_time s r v) = high_time_threshold s"
  "low_time_threshold (set_visible_time s r v) = low_time_threshold s"
  "high_time_cap (set_visible_time s r v) = high_time_cap s"
  by (simp_all add: set_visible_time_def set_visible_total_time_def
      set_visible_time_remaining_def Let_def)

lemma reward_at_forty:
  "calculate_time_reward (set_visible_time default_scaler 40 400) = 25 / 2"
proof -
  let ?s = "set_visible_time default_scaler 40 400"
  have r: "max 0 (visible_time_remaining ?s) = 40"
    by (simp add: set_visible_time_fields)
  have t: "time_fraction ?s = 1 / 10"
    by (simp add: time_fraction_def effective_total_def clamp_def set_visible_time_fields
        default_fields)
  have c: "cap_guarded ?s 40 = 25 / 2"
    by (simp add: cap_guarded_def set_visible_time_fields default_fields)
  have "reference_reward cap_guarded ?s = cap_guarded ?s (max 0 (visible_time_remaining ?s))"
    by (rule reference_reward_capped)
      (simp_all add: r t c set_visible_time_fields default_fields power2_eq_square)
  then show ?thesis by (simp only: calculate_time_reward_guarded r c)
qed

text \<open>
  C2, as the code has it. \<open>calculate_time_reward\<close> is the reference definition of section
  4.2 with the interpolation divided by \<open>max(1e-9, high_time_threshold - low_time_threshold)\<close>.
  It is the reference definition as the specification words it in every state whose
  thresholds are at least \<open>1e-9\<close> apart, the defaults 30 and 50 among them, where the cap
  at 40 minutes is 12.5 and the reward with 40 minutes remaining of 400 is that cap.
\<close>

theorem time_reward_reference:
  "calculate_time_reward s = reference_reward cap_guarded s
   \<and> (1 / 10 ^ 9 \<le> high_time_threshold s - low_time_threshold s
        \<longrightarrow> calculate_time_reward s = reference_reward cap_spec s)
   \<and> cap_spec default_scaler 40 = 25 / 2
   \<and> calculate_time_reward (set_visible_time default_scaler 40 400) = 25 / 2"
proof -
  have "cap_spec default_scaler 40 = 25 / 2"
    by (simp add: cap_spec_def default_fields)
  moreover have "1 / 10 ^ 9 \<le> high_time_threshold s - low_time_threshold s
        \<longrightarrow> reference_reward cap_guarded s = reference_reward cap_spec s"
    by (simp add: reference_reward_def cap_guarded_eq_spec)
  ultimately show ?thesis
    by (simp only: calculate_time_reward_guarded [symmetric] reward_at_forty simp_thms)
qed

theorem time_reward_reference_witness:
  "1 / 10 ^ 9 \<le> high_time_threshold default_scaler - low_time_threshold default_scaler
   \<and> calculate_time_reward default_scaler = reference_reward cap_spec default_scaler"
proof -
  have h: "1 / 10 ^ 9 \<le> high_time_threshold default_scaler - low_time_threshold default_scaler"
    by (simp add: default_fields)
  show ?thesis using h time_reward_reference [of default_scaler] by blast
qed

lemma narrow_band_fields:
  "visible_total_time narrow_band = 4000"
  "visible_time_remaining narrow_band = 40 + 1 / (4 * 10 ^ 9)"
  "high_time_threshold narrow_band = 40 + 1 / (2 * 10 ^ 9)"
  "low_time_threshold narrow_band = 40"
  "start_visible_total_time narrow_band = 100"
  "awarded_time_ledger narrow_band = 0"
  "normal_time_reward narrow_band = 1"
  "low_time_reward narrow_band = 20"
  "high_time_cap narrow_band = 5"
  by (simp_all add: narrow_band_def default_fields)

lemma narrow_band_remaining:
  "max 0 (visible_time_remaining narrow_band) = visible_time_remaining narrow_band"
  "\<not> visible_time_remaining narrow_band < 20"
  by (simp_all add: narrow_band_fields)

lemma narrow_band_curve:
  "25 / 2 \<le> normal_time_reward narrow_band
     + (low_time_reward narrow_band - normal_time_reward narrow_band)
       * (1 - time_fraction narrow_band) ^ 2"
  by (simp add: time_fraction_def effective_total_def clamp_def narrow_band_fields
      power2_eq_square)

lemma narrow_band_caps:
  "cap_guarded narrow_band (visible_time_remaining narrow_band) = 35 / 4"
  "cap_spec narrow_band (visible_time_remaining narrow_band) = 25 / 2"
  by (simp_all add: cap_guarded_def cap_spec_def narrow_band_fields)

lemma narrow_band_loaded:
  "load_state default_scaler
     \<lparr>files = [''game_state.json'' \<mapsto>
        Snapshot [''visible_total_time'' \<mapsto> Num 4000,
                  ''visible_time_remaining'' \<mapsto> Num (40 + 1 / (4 * 10 ^ 9)),
                  ''high_time_threshold'' \<mapsto> Num (40 + 1 / (2 * 10 ^ 9)),
                  ''low_time_threshold'' \<mapsto> Num 40]],
      unwritable = {}\<rparr> ''game_state.json''
   = Inr (narrow_band, True)"
  by (simp add: load_state_def persisted_def narrow_band_def default_scaler_def init_def)

text \<open>
  The claim as worded fails where the thresholds are closer than \<open>1e-9\<close>. After the default
  instance has loaded a snapshot with thresholds 40 and 40.0000000005, a reading of
  40.00000000025 and a total of 4000, the code divides by \<open>1e-9\<close> and returns 8.75; the
  formula of the claim divides by the span and gives 12.5.
\<close>

theorem time_reward_narrow_band:
  "load_state default_scaler
     \<lparr>files = [''game_state.json'' \<mapsto>
        Snapshot [''visible_total_time'' \<mapsto> Num 4000,
                  ''visible_time_remaining'' \<mapsto> Num (40 + 1 / (4 * 10 ^ 9)),
                  ''high_time_threshold'' \<mapsto> Num (40 + 1 / (2 * 10 ^ 9)),
                  ''low_time_threshold'' \<mapsto> Num 40]],
      unwritable = {}\<rparr> ''game_state.json''
     = Inr (narrow_band, True)
   \<and> calculate_time_reward narrow_band = 35 / 4
   \<and> reference_reward cap_spec narrow_band = 25 / 2"
proof -
  have "reference_reward cap_guarded narrow_band = 35 / 4"
    using narrow_band_curve
    by (subst reference_reward_capped)
      (simp_all add: narrow_band_remaining narrow_band_caps narrow_band_fields(7))
  moreover have "reference_reward cap_spec narrow_band = 25 / 2"
    using narrow_band_curve
    by (subst reference_reward_capped)
      (simp_all add: narrow_band_remaining narrow_band_caps narrow_band_fields(7))
  ultimately show ?thesis
    by (simp only: calculate_time_reward_guarded narrow_band_loaded simp_thms)
qed

subsection \<open>Monotonicity of the time reward\<close>

lemma time_fraction_bounds: "0 \<le> time_fraction s" "time_fraction s \<le> 1"
  by (simp_all add: time_fraction_def clamp_def)

lemma curve_le_low:
  fixes b m t :: real
  assumes "b \<le> m" "0 \<le> t" "t \<le> 1"
  shows "b + (m - b) * (1 - t) ^ 2 \<le> m"
proof -
  have "(1 - t) ^ 2 \<le> 1" using assms(2,3) by (simp add: power_le_one)
  then have "(m - b) * (1 - t) ^ 2 \<le> (m - b) * 1"
    using assms(1) by (intro mult_left_mono) simp_all
  then show ?thesis by simp
qed

lemma curve_mono:
  fixes b m t t' :: real
  assumes "b \<le> m" "t' \<le> t" "t \<le> 1"
  shows "b + (m - b) * (1 - t) ^ 2 \<le> b + (m - b) * (1 - t') ^ 2"
proof -
  have "(1 - t) ^ 2 \<le> (1 - t') ^ 2" using assms(2,3) by (intro power_mono) simp_all
  then have "(m - b) * (1 - t) ^ 2 \<le> (m - b) * (1 - t') ^ 2"
    using assms(1) by (intro mult_left_mono) simp_all
  then show ?thesis by simp
qed

lemma reward_le_low:
  assumes "normal_time_reward s \<le> low_time_reward s"
  shows "reference_reward cap s \<le> low_time_reward s"
proof -
  have "normal_time_reward s
          + (low_time_reward s - normal_time_reward s) * (1 - time_fraction s) ^ 2
        \<le> low_time_reward s"
    using assms time_fraction_bounds [of s] by (intro curve_le_low) simp_all
  then show ?thesis using assms
    by (simp add: reference_reward_def Let_def clamp_def min.coboundedI1)
qed

lemma time_fraction_mono:
  assumes "20 \<le> v'" "v' \<le> visible_time_remaining s"
  shows "time_fraction (s\<lparr>visible_time_remaining := v'\<rparr>) \<le> time_fraction s"
proof -
  define v where "v = visible_time_remaining s"
  define M where
    "M = max (start_visible_total_time s + awarded_time_ledger s) (visible_total_time s)"
  have e: "effective_total s = max M v"
    "effective_total (s\<lparr>visible_time_remaining := v'\<rparr>) = max M v'"
    by (simp_all add: effective_total_def M_def v_def)
  have v: "20 \<le> v" "v' \<le> v" using assms by (simp_all add: v_def)
  have f: "time_fraction s = max 0 (min (v / max (1 / 10 ^ 9) (max M v)) 1)"
    "time_fraction (s\<lparr>visible_time_remaining := v'\<rparr>)
       = max 0 (min (v' / max (1 / 10 ^ 9) (max M v')) 1)"
    using v assms(1) by (simp_all add: time_fraction_def clamp_def e v_def)
  show ?thesis
  proof (cases "M \<le> v")
    case True
    then have "max (1 / 10 ^ 9) (max M v) = v" using v by simp
    then have "time_fraction s = 1" using v by (simp add: f)
    then show ?thesis
      using time_fraction_bounds(2) [of "s\<lparr>visible_time_remaining := v'\<rparr>"] by simp
  next
    case False
    then have M: "max (1 / 10 ^ 9) (max M v) = M" "max (1 / 10 ^ 9) (max M v') = M"
      using v assms(1) by simp_all
    have "0 < M" using False v by simp
    then have "v' / M \<le> v / M" using v(2) by (simp add: divide_right_mono)
    then have "max 0 (min (v' / M) 1) \<le> max 0 (min (v / M) 1)"
      by (simp add: max_def min_def)
    then show ?thesis by (simp only: f M)
  qed
qed

lemma interp_ge:
  fixes c m :: real
  assumes "c \<le> m" "v \<le> H" "0 < d"
  shows "c \<le> c + (m - c) * (H - v) / d"
  using assms by simp

lemma interp_frac:
  fixes H L v d :: real
  assumes "L \<le> v" "0 < d" "H - L \<le> d"
  shows "(H - v) / d \<le> 1"
  using assms by simp

lemma interp_le:
  fixes c m :: real
  assumes "c \<le> m" "L \<le> v" "0 < d" "H - L \<le> d"
  shows "c + (m - c) * (H - v) / d \<le> m"
proof -
  have "(m - c) * ((H - v) / d) \<le> (m - c) * 1"
    using assms interp_frac [of L v d H] by (intro mult_left_mono) simp_all
  then show ?thesis by simp
qed

lemma interp_ge_low:
  fixes c m :: real
  assumes "m \<le> c" "L \<le> v" "0 < d" "H - L \<le> d"
  shows "m \<le> c + (m - c) * (H - v) / d"
proof -
  have "(c - m) * ((H - v) / d) \<le> (c - m) * 1"
    using assms interp_frac [of L v d H] by (intro mult_left_mono) simp_all
  moreover have "(m - c) * (H - v) / d = (- (c - m)) * ((H - v) / d)"
    by (simp only: minus_diff_eq times_divide_eq_right)
  ultimately show ?thesis by (simp only: mult_minus_left mult_1_right)
qed

lemma interp_mono:
  fixes c m :: real
  assumes "c \<le> m" "v' \<le> v" "0 < d"
  shows "c + (m - c) * (H - v) / d \<le> c + (m - c) * (H - v') / d"
proof -
  have "(H - v) / d \<le> (H - v') / d" using assms(2,3) by (simp add: divide_right_mono)
  then have "(m - c) * ((H - v) / d) \<le> (m - c) * ((H - v') / d)"
    using assms(1) by (intro mult_left_mono) simp_all
  then show ?thesis by simp
qed

lemma span_facts:
  "0 < max (1 / 10 ^ 9) (high_time_threshold s - low_time_threshold s)"
  "high_time_threshold s - low_time_threshold s
     \<le> max (1 / 10 ^ 9) (high_time_threshold s - low_time_threshold s)"
  by simp_all

lemma cap_guarded_mono:
  assumes "high_time_cap s \<le> low_time_reward s" "v' \<le> v"
  shows "cap_guarded s v \<le> cap_guarded s v'"
  using assms
    interp_ge [OF assms(1) _ span_facts(1) [of s], of v' "high_time_threshold s"]
    interp_le [OF assms(1) _ span_facts [of s], of v]
    interp_mono [OF assms(1,2) span_facts(1) [of s], of "high_time_threshold s"]
  by (simp add: cap_guarded_def)

lemma cap_guarded_ge_low:
  assumes "low_time_reward s \<le> high_time_cap s"
  shows "low_time_reward s \<le> cap_guarded s v"
  using assms interp_ge_low [OF assms _ span_facts [of s], of v]
  by (simp add: cap_guarded_def)

lemma cap_guarded_remaining:
  "cap_guarded (s\<lparr>visible_time_remaining := v'\<rparr>) = cap_guarded s"
  by (rule ext) (simp add: cap_guarded_def)

lemma reference_reward_mono:
  assumes "normal_time_reward s \<le> low_time_reward s" "v' \<le> visible_time_remaining s"
  shows "reference_reward cap_guarded s
           \<le> reference_reward cap_guarded (s\<lparr>visible_time_remaining := v'\<rparr>)"
proof (cases "max 0 v' < 20")
  case True
  then have "reference_reward cap_guarded (s\<lparr>visible_time_remaining := v'\<rparr>)
               = low_time_reward s"
    by (simp add: reference_reward_def)
  then show ?thesis using reward_le_low [OF assms(1), of cap_guarded] by simp
next
  case False
  define s' where "s' = s\<lparr>visible_time_remaining := v'\<rparr>"
  define v where "v = visible_time_remaining s"
  define b where "b = normal_time_reward s"
  define m where "m = low_time_reward s"
  define curve where "curve = (\<lambda>t. b + (m - b) * (1 - t) ^ 2)"
  from False have v': "20 \<le> v'" by simp
  then have v: "20 \<le> v" "v' \<le> v" using assms(2) by (simp_all add: v_def)
  have bm: "b \<le> m" using assms(1) by (simp add: b_def m_def)
  have t: "time_fraction s' \<le> time_fraction s"
    unfolding s'_def using v' assms(2) by (rule time_fraction_mono)
  have c: "curve (time_fraction s) \<le> curve (time_fraction s')"
    unfolding curve_def using bm t time_fraction_bounds(2) [of s] by (rule curve_mono)
  have cl: "curve (time_fraction s) \<le> m" "curve (time_fraction s') \<le> m"
    unfolding curve_def
    using bm time_fraction_bounds by (simp_all add: curve_le_low)
  have r: "reference_reward cap_guarded s
             = max b (min (curve (time_fraction s)) (cap_guarded s v))"
    using v(1) by (simp add: reference_reward_def clamp_def curve_def b_def m_def v_def)
  have r': "reference_reward cap_guarded s'
             = max b (min (curve (time_fraction s')) (cap_guarded s v'))"
    using v' by (simp add: reference_reward_def clamp_def curve_def b_def m_def s'_def
        cap_guarded_remaining)
  have "min (curve (time_fraction s)) (cap_guarded s v)
          \<le> min (curve (time_fraction s')) (cap_guarded s v')"
  proof (cases "high_time_cap s \<le> low_time_reward s")
    case True
    then have "cap_guarded s v \<le> cap_guarded s v'" using v(2) by (rule cap_guarded_mono)
    with c show ?thesis by (rule min.mono)
  next
    case False
    then have "m \<le> cap_guarded s v" "m \<le> cap_guarded s v'"
      by (simp_all add: m_def cap_guarded_ge_low)
    with cl c show ?thesis by simp
  qed
  then have "max b (min (curve (time_fraction s)) (cap_guarded s v))
          \<le> max b (min (curve (time_fraction s')) (cap_guarded s v'))"
    by (intro max.mono) simp_all
  then show ?thesis by (simp only: r r' s'_def [symmetric])
qed

text \<open>
  C5, as the code has it. For two states that differ in \<open>visible_time_remaining\<close> only,
  the one with the smaller (or equal) remaining time has the greater (or equal) reward,
  provided \<open>normal_time_reward\<close> is at most \<open>low_time_reward\<close>, as in every instance that
  has not loaded a snapshot saying otherwise (1 and 20).
\<close>

theorem time_reward_antitone:
  assumes "normal_time_reward s \<le> low_time_reward s"
    and "v' \<le> visible_time_remaining s"
  shows "calculate_time_reward s
           \<le> calculate_time_reward (s\<lparr>visible_time_remaining := v'\<rparr>)"
  using reference_reward_mono [OF assms] by (simp only: calculate_time_reward_guarded)

theorem time_reward_antitone_witness:
  "normal_time_reward default_scaler \<le> low_time_reward default_scaler
   \<and> 40 \<le> visible_time_remaining default_scaler
   \<and> calculate_time_reward default_scaler
       \<le> calculate_time_reward (default_scaler\<lparr>visible_time_remaining := 40\<rparr>)"
proof -
  have h: "normal_time_reward default_scaler \<le> low_time_reward default_scaler"
    "40 \<le> visible_time_remaining default_scaler"
    by (simp_all add: default_fields)
  show ?thesis using h time_reward_antitone [OF h] by blast
qed

lemma inverted_rewards_fields:
  "visible_time_remaining inverted_rewards = 100"
  "normal_time_reward inverted_rewards = 30"
  "low_time_reward inverted_rewards = 20"
  by (simp_all add: inverted_rewards_def default_fields)

lemma reward_ge_normal:
  assumes "\<not> max 0 (visible_time_remaining s) < 20"
  shows "normal_time_reward s \<le> reference_reward cap s"
  using assms by (simp add: reference_reward_def Let_def clamp_def)

lemma inverted_rewards_loaded:
  "load_state default_scaler
     \<lparr>files = [''game_state.json'' \<mapsto> Snapshot [''normal_time_reward'' \<mapsto> Num 30]],
      unwritable = {}\<rparr> ''game_state.json''
   = Inr (inverted_rewards, True)"
  by (simp add: load_state_def persisted_def inverted_rewards_def default_scaler_def init_def)

text \<open>
  The claim as worded fails where \<open>normal_time_reward\<close> exceeds \<open>low_time_reward\<close>. After
  the default instance has loaded a snapshot with \<open>normal_time_reward\<close> 30 (above the
  \<open>low_time_reward\<close> of 20), the reward at 100 minutes remaining is at least 30, and
  lowering the remaining time to 10 minutes lowers the reward to 20.
\<close>

theorem time_reward_drops:
  "load_state default_scaler
     \<lparr>files = [''game_state.json'' \<mapsto> Snapshot [''normal_time_reward'' \<mapsto> Num 30]],
      unwritable = {}\<rparr> ''game_state.json''
     = Inr (inverted_rewards, True)
   \<and> visible_time_remaining (inverted_rewards\<lparr>visible_time_remaining := 10\<rparr>)
       \<le> visible_time_remaining inverted_rewards
   \<and> calculate_time_reward (inverted_rewards\<lparr>visible_time_remaining := 10\<rparr>)
       < calculate_time_reward inverted_rewards"
proof -
  have "calculate_time_reward (inverted_rewards\<lparr>visible_time_remaining := 10\<rparr>) = 20"
    by (simp add: calculate_time_reward_guarded reference_reward_def inverted_rewards_fields)
  moreover have "30 \<le> calculate_time_reward inverted_rewards"
    using reward_ge_normal [of inverted_rewards cap_guarded]
    by (simp add: calculate_time_reward_guarded inverted_rewards_fields)
  ultimately show ?thesis
    by (simp add: inverted_rewards_fields inverted_rewards_loaded)
qed

subsection \<open>Completing a milestone\<close>

lemma reward_on_default_clock:
  assumes "visible_time_remaining s = 100" "visible_total_time s = 100"
    "start_visible_total_time s = 100" "awarded_time_ledger s = 0"
    "normal_time_reward s = 1" "low_time_reward s = 20" "high_time_threshold s = 50"
    "high_time_cap s = 5"
  shows "calculate_time_reward s = 1"
proof -
  have "time_fraction s = 1"
    by (simp add: time_fraction_def effective_total_def clamp_def assms)
  then show ?thesis
    by (simp add: calculate_time_reward_guarded reference_reward_def cap_guarded_def
        clamp_def assms)
qed

text \<open>
  C6. \<open>complete_milestone\<close> adds the current milestone value to the earned score, returns
  what \<open>calculate_time_reward\<close> yields on the instance so updated, and assigns nothing
  else. On the default instance (score 0, 100 minutes remaining of 100) the score becomes
  10 and the bonus is 1.
\<close>

theorem complete_milestone_effect:
  "complete_milestone s =
     (s\<lparr>earned_points := earned_points s + milestone_value s\<rparr>,
      calculate_time_reward (s\<lparr>earned_points := earned_points s + milestone_value s\<rparr>))
   \<and> earned_points default_scaler = 0
   \<and> visible_time_remaining default_scaler = 100
   \<and> visible_total_time default_scaler = 100
   \<and> earned_points (fst (complete_milestone default_scaler)) = 10
   \<and> snd (complete_milestone default_scaler) = 1"
proof -
  have "calculate_time_reward (default_scaler\<lparr>earned_points := 10\<rparr>) = 1"
    by (rule reward_on_default_clock) (simp_all add: default_fields)
  then show ?thesis
    by (simp add: complete_milestone_def Let_def default_fields)
qed

subsection \<open>Persistence\<close>

lemma state_dict_lookup:
  "map_of (state_dict s) ''target_points'' = Some (target_points s)"
  "map_of (state_dict s) ''initial_milestone_value'' = Some (initial_milestone_value s)"
  "map_of (state_dict s) ''milestone_value'' = Some (milestone_value s)"
  "map_of (state_dict s) ''earned_points'' = Some (earned_points s)"
  "map_of (state_dict s) ''visible_total_time'' = Some (visible_total_time s)"
  "map_of (state_dict s) ''visible_time_remaining'' = Some (visible_time_remaining s)"
  "map_of (state_dict s) ''target_win_time'' = Some (target_win_time s)"
  "map_of (state_dict s) ''normal_time_reward'' = Some (normal_time_reward s)"
  "map_of (state_dict s) ''low_time_reward'' = Some (low_time_reward s)"
  "map_of (state_dict s) ''high_time_threshold'' = Some (high_time_threshold s)"
  "map_of (state_dict s) ''low_time_threshold'' = Some (low_time_threshold s)"
  "map_of (state_dict s) ''high_time_cap'' = Some (high_time_cap s)"
  "map_of (state_dict s) ''start_visible_total_time'' = Some (start_visible_total_time s)"
  "map_of (state_dict s) ''awarded_time_ledger'' = Some (awarded_time_ledger s)"
  "map_of (state_dict s) ''adjustment_rate'' = Some (adjustment_rate s)"
  "map_of (state_dict s) ''min_milestone_value'' = Some (min_milestone_value s)"
  "map_of (state_dict s) ''max_milestone_value'' = Some (max_milestone_value s)"
  by (simp_all add: state_dict_def)

lemma restore_saved:
  "restore (\<lambda>key. map_option Num (map_of (state_dict s) key)) persisted fresh
     = Inr (s\<lparr>visible_elapsed := visible_elapsed fresh\<rparr>)"
  by (simp add: persisted_def state_dict_lookup)

lemma load_saved:
  "load_state fresh \<lparr>files = fl(p \<mapsto> json_dump (state_dict s)), unwritable = u\<rparr> p
     = Inr (s\<lparr>visible_elapsed := visible_elapsed fresh\<rparr>, True)"
  by (simp add: load_state_def json_dump_def restore_saved)

lemma save_state_result:
  assumes "save_state s fs p = Inr fs'"
  shows "fs' = \<lparr>files = (files fs)(p \<mapsto> json_dump (state_dict s)),
                 unwritable = unwritable fs\<rparr>"
  using assms by (cases fs) (simp add: save_state_def split: if_splits)

text \<open>
  C7. When \<open>save_state\<close> has written the instance \<open>s\<close> to a path, \<open>load_state\<close> of that path
  into any other instance \<open>fresh\<close> returns \<open>True\<close> and yields \<open>s\<close> in each of the seventeen
  persisted attributes: the result is \<open>s\<close> itself with the one attribute that is not
  persisted, \<open>visible_elapsed\<close>, as \<open>fresh\<close> had it.
\<close>

theorem save_load_roundtrip:
  assumes "save_state s fs p = Inr fs'"
  shows "load_state fresh fs' p = Inr (s\<lparr>visible_elapsed := visible_elapsed fresh\<rparr>, True)"
proof -
  have "fs' = \<lparr>files = (files fs)(p \<mapsto> json_dump (state_dict s)),
               unwritable = unwritable fs\<rparr>"
    using assms by (rule save_state_result)
  then show ?thesis by (simp only: load_saved)
qed

theorem save_load_roundtrip_witness:
  "save_state (add_visible_time (set_progress default_scaler 30) 5 True)
     \<lparr>files = Map.empty, unwritable = {}\<rparr> ''game_state.json''
   = Inr \<lparr>files = [''game_state.json'' \<mapsto>
              json_dump (state_dict (add_visible_time (set_progress default_scaler 30) 5 True))],
          unwritable = {}\<rparr>
   \<and> load_state default_scaler
        \<lparr>files = [''game_state.json'' \<mapsto>
              json_dump (state_dict (add_visible_time (set_progress default_scaler 30) 5 True))],
          unwritable = {}\<rparr> ''game_state.json''
     = Inr ((add_visible_time (set_progress default_scaler 30) 5 True)
              \<lparr>visible_elapsed := visible_elapsed default_scaler\<rparr>, True)"
proof -
  have h: "save_state (add_visible_time (set_progress default_scaler 30) 5 True)
             \<lparr>files = Map.empty, unwritable = {}\<rparr> ''game_state.json''
           = Inr \<lparr>files = [''game_state.json'' \<mapsto>
              json_dump (state_dict (add_visible_time (set_progress default_scaler 30) 5 True))],
          unwritable = {}\<rparr>"
    by (simp add: save_state_def)
  show ?thesis using h save_load_roundtrip [OF h, of default_scaler] by simp
qed

text \<open>
  A snapshot value that \<open>float\<close> rejects: the attributes before it are assigned, the
  exception leaves the instance half restored.
\<close>

lemma load_state_rejected_value:
  "load_state default_scaler
     \<lparr>files = [''game_state.json'' \<mapsto>
        Snapshot [''target_points'' \<mapsto> Num 50,
                  ''milestone_value'' \<mapsto> Rejected ValueError,
                  ''earned_points'' \<mapsto> Num 7]],
      unwritable = {}\<rparr> ''game_state.json''
   = Inl (ValueError, default_scaler\<lparr>target_points := 50\<rparr>)"
  by (simp add: load_state_def persisted_def)

text \<open>
  C8. \<open>load_state\<close> of a path that does not exist raises nothing, returns \<open>False\<close> and
  leaves every attribute as it was.
\<close>

theorem load_state_missing:
  assumes "files fs filepath = None"
  shows "load_state s fs filepath = Inr (s, False)"
  using assms by (simp add: load_state_def)

theorem load_state_missing_witness:
  "files \<lparr>files = Map.empty, unwritable = {}\<rparr> ''game_state.json'' = None
   \<and> load_state default_scaler \<lparr>files = Map.empty, unwritable = {}\<rparr> ''game_state.json''
       = Inr (default_scaler, False)"
proof -
  have h: "files \<lparr>files = Map.empty, unwritable = {}\<rparr> ''game_state.json'' = None"
    by simp
  show ?thesis using h load_state_missing [OF h, of default_scaler] by simp
qed

end
